theory Spec2Isabelle
  imports Complex_Main
begin

section \<open>JavaScript values\<close>

text \<open>
  The values that cross the untyped boundaries of the program: a field of the parsed
  JSON request body and an entry of \<open>process.env\<close>. TypeScript's annotations are erased
  at run time, so \<open>undefined\<close> is a value like any other. Numbers are integers here;
  the program only tests them for truthiness.
\<close>

datatype jsval = JUndefined | JNull | JBool bool | JNum int | JStr string

fun truthy :: "jsval \<Rightarrow> bool" where
  "truthy JUndefined = False"
| "truthy JNull = False"
| "truthy (JBool b) = b"
| "truthy (JNum n) = (n \<noteq> 0)"
| "truthy (JStr s) = (s \<noteq> [])"

text \<open>\<open>a || b\<close>: the left operand when it is truthy, the right one otherwise.\<close>

definition js_or :: "jsval \<Rightarrow> jsval \<Rightarrow> jsval" where
  "js_or a b = (if truthy a then a else b)"

text \<open>A plain object read by key: an absent key reads as \<open>undefined\<close>.\<close>

type_synonym js_object = "string \<rightharpoonup> jsval"

definition get_prop :: "js_object \<Rightarrow> string \<Rightarrow> jsval" where
  "get_prop obj k = (case obj k of None \<Rightarrow> JUndefined | Some v \<Rightarrow> v)"

text \<open>\<open>process.env\<close>: every variable that is set holds a string.\<close>

type_synonym process_env = "string \<rightharpoonup> string"

definition env_get :: "process_env \<Rightarrow> string \<Rightarrow> jsval" where
  "env_get env k = (case env k of None \<Rightarrow> JUndefined | Some s \<Rightarrow> JStr s)"

text \<open>
  \<open>Array.prototype.join\<close>, as the language defines it: the result starts empty, and for
  the element at index \<open>k\<close> the separator is appended first when \<open>k > 0\<close>.
\<close>

fun join_loop :: "string \<Rightarrow> string list \<Rightarrow> nat \<Rightarrow> string \<Rightarrow> string" where
  "join_loop sep [] k R = R"
| "join_loop sep (x # xs) k R = join_loop sep xs (Suc k) ((if k > 0 then R @ sep else R) @ x)"

definition js_join :: "string \<Rightarrow> string list \<Rightarrow> string" where
  "js_join sep xs = join_loop sep xs 0 []"

definition newline :: string where
  "newline = [CHR 0x0A]"

definition backslash :: string where
  "backslash = [CHR 0x5C]"


section \<open>Data of the pipeline\<close>

record Document =
  pageContent :: string
  metadata :: "(string \<times> string) list"

datatype message = HumanMessage string | AIMessage string

datatype TaskType =
    TASK_TYPE_UNSPECIFIED | RETRIEVAL_QUERY | RETRIEVAL_DOCUMENT
  | SEMANTIC_SIMILARITY | CLASSIFICATION | CLUSTERING

text \<open>
  The options the two model objects are constructed with. Both classes call the model
  name \<open>model\<close>; the field of the embeddings object is \<open>embedding_model\<close> here.
\<close>

record GoogleGenerativeAIEmbeddings =
  embedding_model :: string
  taskType :: TaskType

record ChatGoogleGenerativeAI =
  model :: string
  temperature :: "rat option"

record loadAndSplitChunkProps =
  chunkSize :: nat
  chunkOverlap :: nat
  docPath :: string

text \<open>
  The two prompt templates, by the variables they are filled with; their fixed
  instruction texts are not modelled.
  \<^item> \<open>rephraseQuestionChainPrompt\<close>: \<open>history\<close>, \<open>question\<close>;
  \<^item> \<open>answerGenerationChainPrompt\<close>: \<open>context\<close>, \<open>history\<close>, \<open>standalone_question\<close>.
\<close>

datatype prompt =
    RephrasePrompt "message list" string
  | AnswerPrompt string "message list" string

datatype error =
    ERR_HTTP_HEADERS_SENT
  | TypeError
  | CollaboratorError string

text \<open>
  Every call the program makes to a collaborator outside the repository is recorded,
  in order, whether it succeeds or not.
\<close>

datatype event =
    LoadDocument string
  | SplitDocuments nat nat
  | EmbedDocuments GoogleGenerativeAIEmbeddings "string list"
  | EmbedQuery GoogleGenerativeAIEmbeddings string
  | ChatCall ChatGoogleGenerativeAI prompt
  | StreamNonString jsval jsval

text \<open>
  The collaborators are parameters of the model: the PDF loader, the text splitter, the
  embedding service (which receives the embeddings object, hence its task type), the
  similarity search of the in-memory vector store with the retriever's default settings,
  the chat model (which answers with a list of fragments), and what the library's chain
  does when it is streamed with a question or a session identifier that is not a string
  (the source does not determine it).
\<close>

record 'v collaborators =
  pdf_load :: "string \<Rightarrow> error + Document list"
  split_documents :: "nat \<Rightarrow> nat \<Rightarrow> Document list \<Rightarrow> error + Document list"
  embed_documents :: "GoogleGenerativeAIEmbeddings \<Rightarrow> string list \<Rightarrow> error + 'v list"
  embed_query :: "GoogleGenerativeAIEmbeddings \<Rightarrow> string \<Rightarrow> error + 'v"
  similarity_search :: "('v \<times> Document) list \<Rightarrow> 'v \<Rightarrow> Document list"
  chat_model :: "ChatGoogleGenerativeAI \<Rightarrow> prompt \<Rightarrow> error + string list"
  stream_non_string :: "jsval \<Rightarrow> jsval \<Rightarrow> error + string list"


section \<open>Asynchronous computations\<close>

text \<open>
  An \<open>async\<close> function is a function of the trace of collaborator calls so far: it
  returns the trace it leaves and either the error its promise is rejected with or its
  value. \<open>bind_io\<close> is \<open>await\<close>: a rejection skips the rest. A collaborator either
  rejects or returns its whole result; a stream that breaks off half-way is not
  modelled.
\<close>

type_synonym 'a io = "event list \<Rightarrow> (error + 'a) \<times> event list"

definition return_io :: "'a \<Rightarrow> 'a io" where
  "return_io x tr = (Inr x, tr)"

definition reject_io :: "error \<Rightarrow> 'a io" where
  "reject_io e tr = (Inl e, tr)"

definition bind_io :: "'a io \<Rightarrow> ('a \<Rightarrow> 'b io) \<Rightarrow> 'b io" where
  "bind_io m f tr = (case m tr of (Inl e, tr') \<Rightarrow> (Inl e, tr') | (Inr x, tr') \<Rightarrow> f x tr')"

definition call_io :: "event \<Rightarrow> error + 'a \<Rightarrow> 'a io" where
  "call_io ev r tr = (r, tr @ [ev])"


section \<open>The helpers module\<close>

definition loadAndSplitChunks :: "'v collaborators \<Rightarrow> loadAndSplitChunkProps \<Rightarrow> Document list io" where
  "loadAndSplitChunks c props =
     bind_io (call_io (LoadDocument (docPath props)) (pdf_load c (docPath props)))
       (\<lambda>rawDoc. call_io (SplitDocuments (chunkSize props) (chunkOverlap props))
                    (split_documents c (chunkSize props) (chunkOverlap props) rawDoc))"

record 'v MemoryVectorStore =
  embeddings :: GoogleGenerativeAIEmbeddings
  memoryVectors :: "('v \<times> Document) list"

text \<open>
  \<open>vectorStore.addDocuments\<close>: the contents are embedded by the store's own embeddings
  object and stored with their documents.
\<close>

definition addDocuments :: "'v collaborators \<Rightarrow> 'v MemoryVectorStore \<Rightarrow> Document list \<Rightarrow> 'v MemoryVectorStore io" where
  "addDocuments c vectorStore documents =
     bind_io (call_io (EmbedDocuments (embeddings vectorStore) (map pageContent documents))
                (embed_documents c (embeddings vectorStore) (map pageContent documents)))
       (\<lambda>vectors. return_io
          (vectorStore\<lparr>memoryVectors := memoryVectors vectorStore @ zip vectors documents\<rparr>))"

definition initializeVectorStore :: "'v collaborators \<Rightarrow> Document list \<Rightarrow> 'v MemoryVectorStore io" where
  "initializeVectorStore c documents =
     (let embeddingModel = \<lparr>embedding_model = ''text-embedding-004'', taskType = RETRIEVAL_DOCUMENT\<rparr>;
          vectorStore = \<lparr>embeddings = embeddingModel, memoryVectors = []\<rparr>
      in addDocuments c vectorStore documents)"

text \<open>
  \<open>vectorStore.asRetriever()\<close>: the query is embedded by the store's embeddings object,
  then the store is searched.
\<close>

definition asRetriever :: "'v collaborators \<Rightarrow> 'v MemoryVectorStore \<Rightarrow> string \<Rightarrow> Document list io" where
  "asRetriever c vectorStore query =
     bind_io (call_io (EmbedQuery (embeddings vectorStore) query)
                (embed_query c (embeddings vectorStore) query))
       (\<lambda>v. return_io (similarity_search c (memoryVectors vectorStore) v))"

definition convertDocsToString :: "Document list \<Rightarrow> string" where
  "convertDocsToString documents =
     js_join newline
       (map (\<lambda>document. ''<doc>'' @ newline @ pageContent document @ newline @ ''</doc>'') documents)"

text \<open>
  The input object of the conversational chain; \<open>RunnablePassthrough.assign\<close> copies it
  and adds one key. The key \<open>context\<close> is the field \<open>context'\<close>.
\<close>

record chain_input =
  question :: string
  history :: "message list"

record chain_input_sq = chain_input +
  standalone_question :: string

record chain_input_ctx = chain_input_sq +
  context' :: string

definition createDocumentRetrievalChain ::
  "(string \<Rightarrow> Document list io) \<Rightarrow> 'a chain_input_scheme \<Rightarrow> string io" where
  "createDocumentRetrievalChain retriever input =
     bind_io (retriever (question input)) (\<lambda>docs. return_io (convertDocsToString docs))"

definition rephrase_llm :: ChatGoogleGenerativeAI where
  "rephrase_llm = \<lparr>model = ''gemini-1.5-pro'', temperature = Some (1 / 10)\<rparr>"

text \<open>The prompt, the chat model, and the string output parser joining the fragments.\<close>

definition createRetrievalQuestionChain :: "'v collaborators \<Rightarrow> 'a chain_input_scheme \<Rightarrow> string io" where
  "createRetrievalQuestionChain c input =
     bind_io (call_io (ChatCall rephrase_llm (RephrasePrompt (history input) (question input)))
                (chat_model c rephrase_llm (RephrasePrompt (history input) (question input))))
       (\<lambda>fragments. return_io (concat fragments))"

definition answer_llm :: ChatGoogleGenerativeAI where
  "answer_llm = \<lparr>model = ''gemini-1.5-pro'', temperature = None\<rparr>"

definition conversationalRetrievalChain ::
  "'v collaborators \<Rightarrow> (string \<Rightarrow> Document list io) \<Rightarrow> chain_input \<Rightarrow> string list io" where
  "conversationalRetrievalChain c retriever input =
     bind_io (createRetrievalQuestionChain c input) (\<lambda>sq.
       let input2 = \<lparr>question = question input, history = history input,
                     standalone_question = sq\<rparr> in
       bind_io (createDocumentRetrievalChain retriever input2) (\<lambda>ctx.
         let input3 = \<lparr>question = question input2, history = history input2,
                       standalone_question = standalone_question input2, context' = ctx\<rparr> in
         call_io (ChatCall answer_llm
                    (AnswerPrompt (context' input3) (history input3) (standalone_question input3)))
           (chat_model c answer_llm
              (AnswerPrompt (context' input3) (history input3) (standalone_question input3)))))"

text \<open>
  \<open>messageHistories\<close> is a plain object. Reading a key that it does not own finds what
  \<open>Object.prototype\<close> has under that name, which is not \<open>undefined\<close> and is no message
  history.
\<close>

type_synonym MessageHistories = "string \<rightharpoonup> message list"

definition object_prototype_keys :: "string list" where
  "object_prototype_keys =
     [''constructor'', ''__proto__'', ''hasOwnProperty'', ''isPrototypeOf'',
      ''propertyIsEnumerable'', ''toLocaleString'', ''toString'', ''valueOf'',
      ''__defineGetter__'', ''__defineSetter__'', ''__lookupGetter__'', ''__lookupSetter__'']"

definition getMessageHistoryForSession ::
  "MessageHistories \<Rightarrow> string \<Rightarrow> MessageHistories \<times> message list option" where
  "getMessageHistoryForSession messageHistories sessionId =
     (case messageHistories sessionId of
        Some h \<Rightarrow> (messageHistories, Some h)
      | None \<Rightarrow>
          if sessionId \<in> set object_prototype_keys then (messageHistories, None)
          else (messageHistories(sessionId \<mapsto> []), Some []))"

text \<open>
  The chain object that \<open>createFinalRetrievalChain\<close> returns closes over the vector store
  (through the retriever) and over \<open>messageHistories\<close>.
\<close>

record 'v final_chain =
  vectorStore :: "'v MemoryVectorStore"
  messageHistories :: MessageHistories

definition final_chain_props :: loadAndSplitChunkProps where
  "final_chain_props =
     \<lparr>chunkSize = 1536, chunkOverlap = 128,
      docPath = ''C:'' @ backslash @ ''Users'' @ backslash @ ''Admin'' @ backslash @ ''Documents''
        @ backslash @ ''Est'' @ [CHR 0xC3, CHR 0xA1] @ ''gio'' @ backslash @ ''rag'' @ backslash
        @ ''src'' @ backslash @ ''data'' @ backslash @ ''docrag01.pdf''\<rparr>"

definition createFinalRetrievalChain :: "'v collaborators \<Rightarrow> 'v final_chain io" where
  "createFinalRetrievalChain c =
     bind_io (loadAndSplitChunks c final_chain_props) (\<lambda>splitDocs.
       bind_io (initializeVectorStore c splitDocs) (\<lambda>store.
         return_io \<lparr>vectorStore = store, messageHistories = Map.empty\<rparr>))"

text \<open>
  \<open>finalRetrievalChain.stream\<close> on strings. The history wrapper asks
  \<open>getMessageHistoryForSession\<close> for the session, runs the conversational chain with the
  messages found there under \<open>history\<close>, and when the run has ended appends the question
  as a human message and the whole answer as an assistant message. The output parser
  then hands the fragments on as bytes (a \<open>string\<close> is a byte string here).
\<close>

definition final_chain_stream ::
  "'v collaborators \<Rightarrow> 'v final_chain \<Rightarrow> string \<Rightarrow> string \<Rightarrow> ('v final_chain \<times> string list) io" where
  "final_chain_stream c chain q sessionId =
     (case getMessageHistoryForSession (messageHistories chain) sessionId of
        (mh, None) \<Rightarrow> reject_io TypeError
      | (mh, Some h) \<Rightarrow>
          bind_io (conversationalRetrievalChain c (asRetriever c (vectorStore chain))
                     \<lparr>question = q, history = h\<rparr>)
            (\<lambda>fragments. return_io
               (chain\<lparr>messageHistories :=
                   mh(sessionId \<mapsto> h @ [HumanMessage q, AIMessage (concat fragments)])\<rparr>,
                fragments)))"

text \<open>
  \<open>handler\<close>: a new chain is created, streamed once, and only the stream is returned.
\<close>

definition handler :: "'v collaborators \<Rightarrow> jsval \<Rightarrow> jsval \<Rightarrow> string list io" where
  "handler c q sessionId =
     bind_io (createFinalRetrievalChain c) (\<lambda>finalRetrievalChain.
       case (q, sessionId) of
         (JStr qs, JStr sid) \<Rightarrow>
           bind_io (final_chain_stream c finalRetrievalChain qs sid)
             (\<lambda>(chain', stream). return_io stream)
       | _ \<Rightarrow> call_io (StreamNonString q sessionId) (stream_non_string c q sessionId))"


section \<open>The HTTP module\<close>

text \<open>\<open>const port = process.env.API_PORT || 8087\<close>, the value given to \<open>app.listen\<close>.\<close>

definition port :: "process_env \<Rightarrow> jsval" where
  "port env = js_or (env_get env ''API_PORT'') (JNum 8087)"

text \<open>
  The response object, as far as the route uses it. Node's \<open>setHeader\<close> throws
  \<open>ERR_HTTP_HEADERS_SENT\<close> once the headers have been flushed; \<open>res.json\<close> sets the
  content type, writes the body and ends the response, which flushes them.
\<close>

record response =
  statusCode :: nat
  headers :: "(string \<times> string) list"
  headersSent :: bool
  body :: "string list"
  finished :: bool

definition new_response :: response where
  "new_response = \<lparr>statusCode = 200, headers = [], headersSent = False, body = [], finished = False\<rparr>"

definition res_status :: "response \<Rightarrow> nat \<Rightarrow> response" where
  "res_status res code = res\<lparr>statusCode := code\<rparr>"

definition res_setHeader :: "response \<Rightarrow> string \<Rightarrow> string \<Rightarrow> error + response" where
  "res_setHeader res name v =
     (if headersSent res then Inl ERR_HTTP_HEADERS_SENT
      else Inr (res\<lparr>headers := filter (\<lambda>(n, _). n \<noteq> name) (headers res) @ [(name, v)]\<rparr>))"

definition res_write :: "response \<Rightarrow> string \<Rightarrow> response" where
  "res_write res chunk =
     (if finished res then res else res\<lparr>headersSent := True, body := body res @ [chunk]\<rparr>)"

definition res_end :: "response \<Rightarrow> response" where
  "res_end res = res\<lparr>headersSent := True, finished := True\<rparr>"

definition res_json :: "response \<Rightarrow> string \<Rightarrow> error + response" where
  "res_json res payload =
     (case res_setHeader res ''Content-Type'' ''application/json; charset=utf-8'' of
        Inl e \<Rightarrow> Inl e
      | Inr res' \<Rightarrow> Inr (res_end (res_write res' payload)))"

definition js_not :: "jsval \<Rightarrow> bool" where
  "js_not v = (\<not> truthy v)"

definition error_payload :: string where
  "error_payload = ''{\"error\":\"question and session_id are required\"}''"

text \<open>
  The handler of \<open>POST /generate\<close>, on a parsed body (an object, as the JSON body parser
  leaves it) and a fresh response: the outcome of its promise, the response as it leaves
  it, and the trace. The branch that answers 400
  does not return, so the statements after it run in both cases. The text decoder is the
  identity on byte strings.
\<close>

definition generate_route ::
  "'v collaborators \<Rightarrow> js_object \<Rightarrow> event list \<Rightarrow> (error + unit) \<times> response \<times> event list" where
  "generate_route c req_body tr =
     (let q = get_prop req_body ''question'';
          session_id = get_prop req_body ''session_id''
      in case (if js_not q \<or> js_not session_id
               then res_json (res_status new_response 400) error_payload
               else Inr new_response) of
           Inl e \<Rightarrow> (Inl e, new_response, tr)
         | Inr res1 \<Rightarrow>
            (case res_setHeader res1 ''Content-Type'' ''text/plain; charset=utf-8'' of
               Inl e \<Rightarrow> (Inl e, res1, tr)
             | Inr res2 \<Rightarrow>
                (case res_setHeader res2 ''Transfer-Encoding'' ''chunked'' of
                   Inl e \<Rightarrow> (Inl e, res2, tr)
                 | Inr res3 \<Rightarrow>
                    (case handler c q session_id tr of
                       (Inl e, tr') \<Rightarrow> (Inl e, res3, tr')
                     | (Inr aiResponseStream, tr') \<Rightarrow>
                         (Inr (), res_end (foldl res_write res3 aiResponseStream), tr')))))"

text \<open>
  The requests of one process, served one after the other. Nothing but the trace is
  handed from one request to the next: the module keeps no state of its own.
\<close>

fun serve ::
  "'v collaborators \<Rightarrow> js_object list \<Rightarrow> event list \<Rightarrow> ((error + unit) \<times> response) list \<times> event list" where
  "serve c [] tr = ([], tr)"
| "serve c (b # bs) tr =
     (case generate_route c b tr of
        (r, res, tr') \<Rightarrow> (case serve c bs tr' of (rs, tr'') \<Rightarrow> ((r, res) # rs, tr'')))"

text \<open>
  A run of the program under an environment: the port it listens on and the requests it
  serves. The environment reaches the collaborators as well: the helpers module loads the
  \<open>.env\<close> file into \<open>process.env\<close>, and the embedding and chat classes, constructed
  without a key, take their API key from there. So the collaborators of a run are a
  function of its environment.
\<close>

definition program ::
  "process_env \<Rightarrow> (process_env \<Rightarrow> 'v collaborators) \<Rightarrow> js_object list \<Rightarrow>
     jsval \<times> ((error + unit) \<times> response) list \<times> event list" where
  "program env services requests = (port env, serve (services env) requests [])"


section \<open>Observations on a trace\<close>

text \<open>The histories the query rewriter was prompted with, call by call.\<close>

fun rephrase_histories :: "event list \<Rightarrow> message list list" where
  "rephrase_histories [] = []"
| "rephrase_histories (ChatCall m (RephrasePrompt h q) # es) = h # rephrase_histories es"
| "rephrase_histories (e # es) = rephrase_histories es"


fun is_query :: "event \<Rightarrow> bool" where
  "is_query (EmbedQuery e q) = True"
| "is_query (ChatCall m p) = True"
| "is_query e = False"

text \<open>The task types the chunks and the questions were embedded with.\<close>

fun document_modes :: "event list \<Rightarrow> TaskType list" where
  "document_modes [] = []"
| "document_modes (EmbedDocuments e ts # es) = taskType e # document_modes es"
| "document_modes (e # es) = document_modes es"

fun query_modes :: "event list \<Rightarrow> TaskType list" where
  "query_modes [] = []"
| "query_modes (EmbedQuery e q # es) = taskType e # query_modes es"
| "query_modes (e # es) = query_modes es"

text \<open>An event that carries the constants written in the helpers module.\<close>

fun fixed_configuration :: "event \<Rightarrow> bool" where
  "fixed_configuration (LoadDocument p) = (p = docPath final_chain_props)"
| "fixed_configuration (SplitDocuments n k) = (n = 1536 \<and> k = 128)"
| "fixed_configuration (EmbedDocuments e ts) = (embedding_model e = ''text-embedding-004'')"
| "fixed_configuration (EmbedQuery e q) = (embedding_model e = ''text-embedding-004'')"
| "fixed_configuration (ChatCall m (RephrasePrompt h q)) =
     (model m = ''gemini-1.5-pro'' \<and> temperature m = Some (1 / 10))"
| "fixed_configuration (ChatCall m (AnswerPrompt cx h q)) =
     (model m = ''gemini-1.5-pro'' \<and> temperature m = None)"
| "fixed_configuration (StreamNonString q s) = True"

text \<open>The embeddings object that \<open>initializeVectorStore\<close> constructs.\<close>

definition the_embeddings :: GoogleGenerativeAIEmbeddings where
  "the_embeddings = \<lparr>embedding_model = ''text-embedding-004'', taskType = RETRIEVAL_DOCUMENT\<rparr>"

text \<open>The response of a request that streamed its answer, and the response that
  reports the missing fields.\<close>

definition ok_response :: "string list \<Rightarrow> response" where
  "ok_response chunks =
     \<lparr>statusCode = 200,
      headers = [(''Content-Type'', ''text/plain; charset=utf-8''), (''Transfer-Encoding'', ''chunked'')],
      headersSent = True, body = chunks, finished = True\<rparr>"

definition rejection_response :: response where
  "rejection_response =
     \<lparr>statusCode = 400,
      headers = [(''Content-Type'', ''application/json; charset=utf-8'')],
      headersSent = True, body = [error_payload], finished = True\<rparr>"

text \<open>A computation only appends to the trace, and every event it appends satisfies \<open>P\<close>.\<close>

definition emits :: "(event \<Rightarrow> bool) \<Rightarrow> 'a io \<Rightarrow> bool" where
  "emits P m = (\<forall>tr. \<exists>evs. snd (m tr) = tr @ evs \<and> list_all P evs)"

text \<open>The context block in the words of the specification: each chunk wrapped on its
  own, the wrapped chunks separated by newlines, in the order given; nothing for no
  chunk.\<close>

definition wrapped :: "Document \<Rightarrow> string" where
  "wrapped d = ''<doc>'' @ newline @ pageContent d @ newline @ ''</doc>''"

fun context_block_spec :: "Document list \<Rightarrow> string" where
  "context_block_spec [] = []"
| "context_block_spec [d] = wrapped d"
| "context_block_spec (d # ds) = wrapped d @ newline @ context_block_spec ds"


section \<open>A test double for the collaborators\<close>

text \<open>
  A one-page document that is one chunk, vectors that are lengths, a search that keeps
  the store's order, and a chat model with fixed answers: the rewriter always returns
  the same standalone question.
\<close>

definition sky :: Document where
  "sky = \<lparr>pageContent = ''The sky is blue.'', metadata = []\<rparr>"

definition stub :: "nat collaborators" where
  "stub =
     \<lparr>pdf_load = (\<lambda>p. Inr [sky]),
      split_documents = (\<lambda>n k docs. Inr docs),
      embed_documents = (\<lambda>e ts. Inr (map length ts)),
      embed_query = (\<lambda>e q. Inr (length q)),
      similarity_search = (\<lambda>mv v. map snd (take 4 mv)),
      chat_model = (\<lambda>m p. case p of
                       RephrasePrompt h q \<Rightarrow> Inr [''What color is the grass?'']
                     | AnswerPrompt cx h q \<Rightarrow> Inr [''It is '', ''green.'']),
      stream_non_string = (\<lambda>q s. Inl TypeError)\<rparr>"

definition request :: "string \<Rightarrow> string \<Rightarrow> js_object" where
  "request q sid = [''question'' \<mapsto> JStr q, ''session_id'' \<mapsto> JStr sid]"

text \<open>
  The same double under an environment: without \<open>GOOGLE_API_KEY\<close> the embedding and chat
  services reject every call.
\<close>

definition keyed_stub :: "process_env \<Rightarrow> nat collaborators" where
  "keyed_stub env =
     (case env ''GOOGLE_API_KEY'' of
        Some k \<Rightarrow> stub
      | None \<Rightarrow>
          stub\<lparr>embed_documents := (\<lambda>e ts. Inl (CollaboratorError ''GOOGLE_API_KEY'')),
               embed_query := (\<lambda>e q. Inl (CollaboratorError ''GOOGLE_API_KEY'')),
               chat_model := (\<lambda>m p. Inl (CollaboratorError ''GOOGLE_API_KEY''))\<rparr>)"

definition sample_env :: process_env where
  "sample_env =
     [''GOOGLE_API_KEY'' \<mapsto> ''key'', ''API_PORT'' \<mapsto> ''3000'', ''CHUNK_SIZE'' \<mapsto> ''512'',
      ''CHUNK_OVERLAP'' \<mapsto> ''64'', ''DOC_PATH'' \<mapsto> ''/data/other.pdf'',
      ''MODEL_NAME'' \<mapsto> ''gemini-2.0-flash'', ''TEMPERATURE'' \<mapsto> ''0.7'']"


section \<open>Facts about the model\<close>

lemmas io_defs = return_io_def reject_io_def bind_io_def call_io_def

lemmas pipeline_defs = handler_def createFinalRetrievalChain_def loadAndSplitChunks_def
  initializeVectorStore_def addDocuments_def final_chain_stream_def
  getMessageHistoryForSession_def conversationalRetrievalChain_def
  createRetrievalQuestionChain_def createDocumentRetrievalChain_def asRetriever_def

lemma emits_return: "emits P (return_io x)"
  by (simp add: emits_def return_io_def)

lemma emits_reject: "emits P (reject_io e)"
  by (simp add: emits_def reject_io_def)

lemma emits_call: "P ev \<Longrightarrow> emits P (call_io ev r)"
  by (simp add: emits_def call_io_def)

lemma emits_bind_result:
  assumes m: "emits P m" and f: "\<And>x tr tr'. m tr = (Inr x, tr') \<Longrightarrow> emits P (f x)"
  shows "emits P (bind_io m f)"
  unfolding emits_def
proof
  fix tr
  from m obtain evs where evs: "snd (m tr) = tr @ evs" "list_all P evs"
    unfolding emits_def by blast
  show "\<exists>evs'. snd (bind_io m f tr) = tr @ evs' \<and> list_all P evs'"
  proof (cases "fst (m tr)")
    case (Inl e)
    then have "m tr = (Inl e, tr @ evs)" using evs(1) by (metis prod.collapse)
    then show ?thesis using evs(2) by (simp add: bind_io_def)
  next
    case (Inr x)
    then have mt: "m tr = (Inr x, tr @ evs)" using evs(1) by (metis prod.collapse)
    from f [OF mt] obtain evs2 where "snd (f x (tr @ evs)) = (tr @ evs) @ evs2" "list_all P evs2"
      unfolding emits_def by blast
    then show ?thesis using evs(2) mt by (simp add: bind_io_def)
  qed
qed

lemma emits_bind:
  assumes "emits P m" and "\<And>x. emits P (f x)"
  shows "emits P (bind_io m f)"
  using assms by (intro emits_bind_result)

lemma emits_snd: "emits P m \<Longrightarrow> \<exists>evs. snd (m tr) = tr @ evs \<and> list_all P evs"
  by (simp add: emits_def)

lemma join_loop_append:
  "join_loop sep xs (Suc k) R = R @ concat (map (\<lambda>x. sep @ x) xs)"
  by (induction xs arbitrary: k R) simp_all

lemma context_block_spec_Cons:
  "context_block_spec (d # ds) = wrapped d @ concat (map (\<lambda>x. newline @ wrapped x) ds)"
  by (induction ds arbitrary: d) simp_all

lemma convertDocsToString_spec: "convertDocsToString docs = context_block_spec docs"
proof (cases docs)
  case Nil
  then show ?thesis by (simp add: convertDocsToString_def js_join_def)
next
  case (Cons d ds)
  have "convertDocsToString (d # ds) = wrapped d @ concat (map (\<lambda>x. newline @ wrapped x) ds)"
    by (simp add: convertDocsToString_def js_join_def join_loop_append wrapped_def comp_def)
  then show ?thesis using Cons by (simp add: context_block_spec_Cons)
qed


lemma asRetriever_emits:
  "(\<And>q. P (EmbedQuery (embeddings store) q)) \<Longrightarrow> emits P (asRetriever c store q)"
  unfolding asRetriever_def by (intro emits_bind emits_call emits_return)

lemma conversationalRetrievalChain_emits:
  assumes "\<And>h q. P (ChatCall rephrase_llm (RephrasePrompt h q))"
    and "\<And>cx h q. P (ChatCall answer_llm (AnswerPrompt cx h q))"
    and "\<And>q. emits P (retriever q)"
  shows "emits P (conversationalRetrievalChain c retriever input)"
  unfolding conversationalRetrievalChain_def createRetrievalQuestionChain_def
    createDocumentRetrievalChain_def Let_def
  by (intro emits_bind emits_call emits_return assms)

lemma final_chain_stream_emits:
  assumes "\<And>h q. P (ChatCall rephrase_llm (RephrasePrompt h q))"
    and "\<And>cx h q. P (ChatCall answer_llm (AnswerPrompt cx h q))"
    and "\<And>q. P (EmbedQuery (embeddings (vectorStore chain)) q)"
  shows "emits P (final_chain_stream c chain q sid)"
proof (cases "getMessageHistoryForSession (messageHistories chain) sid")
  case (Pair mh ho)
  show ?thesis
  proof (cases ho)
    case None
    with Pair show ?thesis by (simp add: final_chain_stream_def emits_reject)
  next
    case (Some h)
    with Pair show ?thesis
      by (simp add: final_chain_stream_def)
        (intro emits_bind emits_return conversationalRetrievalChain_emits asRetriever_emits assms)
  qed
qed

lemma stream_emits:
  assumes "\<And>h q. P (ChatCall rephrase_llm (RephrasePrompt h q))"
    and "\<And>cx h q. P (ChatCall answer_llm (AnswerPrompt cx h q))"
    and "\<And>q. P (EmbedQuery (embeddings (vectorStore chain)) q)"
    and "\<And>a b. P (StreamNonString a b)"
  shows "emits P (case (q, sid) of
         (JStr qs, JStr s) \<Rightarrow>
           bind_io (final_chain_stream c chain qs s) (\<lambda>(chain', stream). return_io stream)
       | _ \<Rightarrow> call_io (StreamNonString q sid) (stream_non_string c q sid))"
proof -
  have strings: "emits P (bind_io (final_chain_stream c chain qs s) (\<lambda>(chain', stream). return_io stream))"
    for qs s
    by (intro emits_bind final_chain_stream_emits assms) (simp add: split_def emits_return)
  have other: "emits P (call_io (StreamNonString a b) (stream_non_string c a b))" for a b
    by (intro emits_call assms)
  show ?thesis by (cases q; cases sid) (simp_all add: strings other)
qed

lemma final_chain_props_sizes:
  "chunkSize final_chain_props = 1536" "chunkOverlap final_chain_props = 128"
  by (simp_all add: final_chain_props_def)


lemma createFinalRetrievalChain_emits:
  "emits fixed_configuration (createFinalRetrievalChain c)"
  unfolding createFinalRetrievalChain_def loadAndSplitChunks_def initializeVectorStore_def
    addDocuments_def Let_def
  by (intro emits_bind emits_call emits_return) (simp_all add: final_chain_props_sizes)

lemma createFinalRetrievalChain_result:
  assumes "createFinalRetrievalChain c tr = (Inr chain, tr')"
  shows "embeddings (vectorStore chain) = the_embeddings" and "messageHistories chain = Map.empty"
  using assms
  by (auto simp: createFinalRetrievalChain_def loadAndSplitChunks_def initializeVectorStore_def
      addDocuments_def io_defs the_embeddings_def Let_def split: sum.splits)

lemma handler_emits_fixed_configuration: "emits fixed_configuration (handler c q sid)"
  unfolding handler_def
proof (rule emits_bind_result [OF createFinalRetrievalChain_emits])
  fix chain :: "'a final_chain" and tr tr'
  assume "createFinalRetrievalChain c tr = (Inr chain, tr')"
  then have "embeddings (vectorStore chain) = the_embeddings"
    by (rule createFinalRetrievalChain_result)
  then show "emits fixed_configuration (case (q, sid) of
         (JStr qs, JStr s) \<Rightarrow>
           bind_io (final_chain_stream c chain qs s) (\<lambda>(chain', stream). return_io stream)
       | _ \<Rightarrow> call_io (StreamNonString q sid) (stream_non_string c q sid))"
    by (intro stream_emits) (simp_all add: rephrase_llm_def answer_llm_def the_embeddings_def)
qed

lemma generate_route_trace:
  "\<exists>r res. generate_route c b tr = (r, res, tr) \<or>
     generate_route c b tr = (r, res, snd (handler c (get_prop b ''question'') (get_prop b ''session_id'') tr))"
  by (auto simp: generate_route_def Let_def split: sum.splits prod.splits)

lemma generate_route_emits:
  assumes "\<And>q sid. emits P (handler c q sid)"
  shows "\<exists>evs. snd (snd (generate_route c b tr)) = tr @ evs \<and> list_all P evs"
proof -
  from generate_route_trace [of c b tr] obtain r res where
    "generate_route c b tr = (r, res, tr) \<or>
     generate_route c b tr = (r, res, snd (handler c (get_prop b ''question'') (get_prop b ''session_id'') tr))"
    by blast
  then show ?thesis
  proof
    assume "generate_route c b tr = (r, res, tr)"
    then show ?thesis by simp
  next
    assume "generate_route c b tr =
      (r, res, snd (handler c (get_prop b ''question'') (get_prop b ''session_id'') tr))"
    then show ?thesis using emits_snd [OF assms] by simp
  qed
qed

lemma serve_emits:
  assumes "\<And>q sid. emits P (handler c q sid)"
  shows "\<exists>evs. snd (serve c bs tr) = tr @ evs \<and> list_all P evs"
proof (induction bs arbitrary: tr)
  case Nil
  then show ?case by simp
next
  case (Cons b bs)
  obtain r res tr' where g: "generate_route c b tr = (r, res, tr')"
    by (metis prod.collapse)
  from generate_route_emits [OF assms, of b tr] g obtain evs1 where
    1: "tr' = tr @ evs1" "list_all P evs1" by auto
  from Cons.IH [of tr'] obtain evs2 where 2: "snd (serve c bs tr') = tr' @ evs2" "list_all P evs2"
    by blast
  show ?case using g 1 2 by (auto split: prod.splits)
qed

lemma missing_field:
  assumes "\<not> truthy (get_prop b ''question'') \<or> \<not> truthy (get_prop b ''session_id'')"
  shows "generate_route c b tr = (Inl ERR_HTTP_HEADERS_SENT, rejection_response, tr)"
  using assms
  by (auto simp: generate_route_def Let_def js_not_def res_json_def res_status_def res_setHeader_def
      res_write_def res_end_def new_response_def rejection_response_def)

lemma bind_io_trace_prefix:
  assumes m: "snd (m tr) = tr @ e # evs" and f: "\<And>x. emits (\<lambda>_. True) (f x)"
  shows "\<exists>evs'. snd (bind_io m f tr) = tr @ e # evs'"
proof (cases "fst (m tr)")
  case (Inl err)
  then have "m tr = (Inl err, tr @ e # evs)" using m by (metis prod.collapse)
  then show ?thesis by (simp add: bind_io_def)
next
  case (Inr x)
  then have mt: "m tr = (Inr x, tr @ e # evs)" using m by (metis prod.collapse)
  from emits_snd [OF f, of x "tr @ e # evs"] obtain evs2 where
    "snd (f x (tr @ e # evs)) = (tr @ e # evs) @ evs2" by blast
  then show ?thesis using mt by (simp add: bind_io_def)
qed

lemma call_io_trace: "snd (call_io ev r tr) = tr @ ev # []"
  by (simp add: call_io_def)

lemma loadAndSplitChunks_starts:
  "\<exists>evs. snd (loadAndSplitChunks c props tr) = tr @ LoadDocument (docPath props) # evs"
  unfolding loadAndSplitChunks_def
  by (rule bind_io_trace_prefix [OF call_io_trace]) (simp add: emits_call)

lemma createFinalRetrievalChain_starts:
  "\<exists>evs. snd (createFinalRetrievalChain c tr) = tr @ LoadDocument (docPath final_chain_props) # evs"
proof -
  from loadAndSplitChunks_starts [of c final_chain_props tr] obtain evs where
    "snd (loadAndSplitChunks c final_chain_props tr) = tr @ LoadDocument (docPath final_chain_props) # evs"
    by blast
  then show ?thesis
    unfolding createFinalRetrievalChain_def initializeVectorStore_def addDocuments_def Let_def
    by (rule bind_io_trace_prefix) (intro emits_bind emits_call emits_return, simp)
qed

lemma handler_starts:
  "\<exists>evs. snd (handler c q sid tr) = tr @ LoadDocument (docPath final_chain_props) # evs"
proof -
  from createFinalRetrievalChain_starts [of c tr] obtain evs where
    "snd (createFinalRetrievalChain c tr) = tr @ LoadDocument (docPath final_chain_props) # evs"
    by blast
  then show ?thesis
    unfolding handler_def
    by (rule bind_io_trace_prefix) (intro stream_emits, simp_all)
qed


lemmas stub_defs = stub_def sky_def request_def the_embeddings_def rephrase_llm_def answer_llm_def
  object_prototype_keys_def convertDocsToString_def js_join_def newline_def wrapped_def

lemma handler_stub_trace:
  "handler stub (JStr q) (JStr ''s1'') tr =
     (Inr [''It is '', ''green.''],
      tr @ [LoadDocument (docPath final_chain_props), SplitDocuments 1536 128,
       EmbedDocuments the_embeddings [''The sky is blue.''],
       ChatCall rephrase_llm (RephrasePrompt [] q),
       EmbedQuery the_embeddings q,
       ChatCall answer_llm (AnswerPrompt (wrapped sky) [] ''What color is the grass?'')])"
  by (simp add: pipeline_defs io_defs stub_defs final_chain_props_sizes Let_def)

lemma route_stub:
  "q \<noteq> [] \<Longrightarrow> generate_route stub (request q ''s1'') tr =
     (Inr (), ok_response [''It is '', ''green.''],
      tr @ [LoadDocument (docPath final_chain_props), SplitDocuments 1536 128,
       EmbedDocuments the_embeddings [''The sky is blue.''],
       ChatCall rephrase_llm (RephrasePrompt [] q),
       EmbedQuery the_embeddings q,
       ChatCall answer_llm (AnswerPrompt (wrapped sky) [] ''What color is the grass?'')])"
  by (simp add: generate_route_def handler_stub_trace request_def get_prop_def js_not_def
      res_setHeader_def res_write_def res_end_def new_response_def ok_response_def Let_def)

lemma serve_stub_two:
  "q1 \<noteq> [] \<Longrightarrow> q2 \<noteq> [] \<Longrightarrow> serve stub [request q1 ''s1'', request q2 ''s1''] [] =
     ([(Inr (), ok_response [''It is '', ''green.'']), (Inr (), ok_response [''It is '', ''green.''])],
      [LoadDocument (docPath final_chain_props), SplitDocuments 1536 128,
       EmbedDocuments the_embeddings [''The sky is blue.''],
       ChatCall rephrase_llm (RephrasePrompt [] q1),
       EmbedQuery the_embeddings q1,
       ChatCall answer_llm (AnswerPrompt (wrapped sky) [] ''What color is the grass?''),
       LoadDocument (docPath final_chain_props), SplitDocuments 1536 128,
       EmbedDocuments the_embeddings [''The sky is blue.''],
       ChatCall rephrase_llm (RephrasePrompt [] q2),
       EmbedQuery the_embeddings q2,
       ChatCall answer_llm (AnswerPrompt (wrapped sky) [] ''What color is the grass?'')])"
  by (simp add: route_stub)

section \<open>Retrieval input (C1)\<close>

text \<open>
  Whenever the rewriter answers, the next call of the conversational chain embeds
  \<open>input.question\<close>, the question as it came in: \<open>createDocumentRetrievalChain\<close> reads the
  key \<open>question\<close>, not \<open>standalone_question\<close>.
\<close>

lemma retrieval_query_general:
  assumes "chat_model c rephrase_llm (RephrasePrompt (history input) (question input)) = Inr fragments"
  shows "\<exists>evs. snd (conversationalRetrievalChain c (asRetriever c store) input tr) =
           tr @ [ChatCall rephrase_llm (RephrasePrompt (history input) (question input)),
                 EmbedQuery (embeddings store) (question input)] @ evs"
  using assms
  by (auto simp: conversationalRetrievalChain_def createRetrievalQuestionChain_def
      createDocumentRetrievalChain_def asRetriever_def io_defs Let_def split: sum.splits)

text \<open>
  C1. The claim: the Context Retriever queries the Vector Index with the standalone
  question produced by the Query Rewriter, not with the incoming question. On the
  follow-up question \<open>And the grass?\<close>, with one earlier exchange in the history and a
  rewriter that returns \<open>What color is the grass?\<close>, the chain embeds and searches for
  \<open>And the grass?\<close>; the rewriter's output only reaches the answer prompt.
\<close>

theorem retrieval_uses_incoming_question:
  "conversationalRetrievalChain stub
     (asRetriever stub \<lparr>embeddings = the_embeddings, memoryVectors = [(16, sky)]\<rparr>)
     \<lparr>question = ''And the grass?'',
      history = [HumanMessage ''What color is the sky?'', AIMessage ''It is blue.'']\<rparr> [] =
   (Inr [''It is '', ''green.''],
    [ChatCall rephrase_llm
       (RephrasePrompt [HumanMessage ''What color is the sky?'', AIMessage ''It is blue.'']
          ''And the grass?''),
     EmbedQuery the_embeddings ''And the grass?'',
     ChatCall answer_llm
       (AnswerPrompt (wrapped sky) [HumanMessage ''What color is the sky?'', AIMessage ''It is blue.'']
          ''What color is the grass?'')])"
  by (simp add: conversationalRetrievalChain_def createRetrievalQuestionChain_def
      createDocumentRetrievalChain_def asRetriever_def io_defs stub_defs Let_def)


section \<open>Missing request fields (C2)\<close>

text \<open>
  C2. A request whose \<open>question\<close> or \<open>session_id\<close> is missing or empty (falsy) is
  answered with status 400 and no pipeline stage runs: the trace is left as it was, and
  any invocation of \<open>handler\<close> would have extended it. The branch that answers does not
  return; what stops the route is \<open>setHeader\<close>, which throws on the response that
  \<open>res.json\<close> has already sent, so the route's promise is rejected before \<open>handler\<close> is
  reached.
\<close>

theorem missing_field_rejected:
  assumes "\<not> truthy (get_prop b ''question'') \<or> \<not> truthy (get_prop b ''session_id'')"
  shows "generate_route c b tr = (Inl ERR_HTTP_HEADERS_SENT, rejection_response, tr)
         \<and> statusCode rejection_response = 400
         \<and> snd (handler c q sid tr) \<noteq> tr"
proof -
  from handler_starts [of c q sid tr] have "snd (handler c q sid tr) \<noteq> tr" by auto
  then show ?thesis using missing_field [OF assms] by (simp add: rejection_response_def)
qed

text \<open>The request of the specification's scenario: a question and no session identifier.\<close>

theorem missing_field_rejected_witness:
  "\<not> truthy (get_prop [''question'' \<mapsto> JStr ''What color is the sky?''] ''session_id'')
   \<and> generate_route stub [''question'' \<mapsto> JStr ''What color is the sky?''] [] =
       (Inl ERR_HTTP_HEADERS_SENT, rejection_response, [])
   \<and> statusCode rejection_response = 400
   \<and> snd (handler stub (JStr ''What color is the sky?'') JUndefined []) \<noteq> []"
  using missing_field_rejected [of "[''question'' \<mapsto> JStr ''What color is the sky?'']" stub "[]"
      "JStr ''What color is the sky?''" JUndefined]
  by (simp add: get_prop_def)


section \<open>Session history (C3)\<close>

text \<open>
  One chain object keeps its sessions: a successful stream appends the question and the
  answer to the history it found, and leaves the vector store alone.
\<close>

lemma final_chain_stream_appends:
  assumes "final_chain_stream c chain q sid tr = (Inr (chain', fragments), tr')"
  shows "\<exists>h. snd (getMessageHistoryForSession (messageHistories chain) sid) = Some h
           \<and> messageHistories chain' sid = Some (h @ [HumanMessage q, AIMessage (concat fragments)])
           \<and> vectorStore chain' = vectorStore chain"
  using assms
  by (auto simp: final_chain_stream_def bind_io_def return_io_def reject_io_def
      split: prod.splits option.splits sum.splits)

text \<open>Streamed twice for the same session, one chain prompts the rewriter with the
  first exchange the second time.\<close>

lemma shared_chain_keeps_history:
  "rephrase_histories
     (snd (bind_io
        (final_chain_stream stub
           \<lparr>vectorStore = \<lparr>embeddings = the_embeddings, memoryVectors = [(16, sky)]\<rparr>,
            messageHistories = Map.empty\<rparr> ''What color is the sky?'' ''s1'')
        (\<lambda>(chain1, stream). final_chain_stream stub chain1 ''And the grass?'' ''s1'') [])) =
   [[], [HumanMessage ''What color is the sky?'', AIMessage ''It is green.'']]"
  by (simp add: pipeline_defs io_defs stub_defs Let_def)

text \<open>
  C3. The claim: the session created on first reference is shared across requests, so
  that after N successful requests its history has grown by 2N messages. Two requests
  for the session \<open>s1\<close>, served one after the other, both succeed, and the rewriter of the
  second is prompted with an empty history, as the first was: \<open>handler\<close> creates the chain,
  and with it \<open>messageHistories\<close>, anew for every request.
\<close>

theorem history_not_shared_across_requests:
  "map fst (fst (serve stub [request ''What color is the sky?'' ''s1'', request ''And the grass?'' ''s1''] []))
     = [Inr (), Inr ()]
   \<and> rephrase_histories
       (snd (serve stub [request ''What color is the sky?'' ''s1'', request ''And the grass?'' ''s1''] []))
     = [[], []]"
  by (simp add: serve_stub_two rephrase_llm_def answer_llm_def the_embeddings_def del: serve.simps)


section \<open>Building the vector index (C4)\<close>





section \<open>Embedding modes (C5)\<close>

text \<open>
  Against C5 as claimed (the question is embedded in a query mode distinct from the
  mode of the chunks): in a request the question and the chunks are embedded with the
  same task type.
\<close>

theorem query_mode_counterexample:
  "query_modes (snd (handler stub (JStr ''What color is the sky?'') (JStr ''s1'') [])) = [RETRIEVAL_DOCUMENT]
   \<and> document_modes (snd (handler stub (JStr ''What color is the sky?'') (JStr ''s1'') [])) = [RETRIEVAL_DOCUMENT]"
  by (simp add: handler_stub_trace rephrase_llm_def answer_llm_def the_embeddings_def)

text \<open>
  C5, amended. The store that \<open>initializeVectorStore\<close> returns embeds a question with
  the one embeddings object it embedded the chunks with, whose task type is
  \<open>RETRIEVAL_DOCUMENT\<close>.
\<close>

theorem query_embedded_in_document_mode:
  assumes "initializeVectorStore c docs tr = (Inr store, tr')"
  shows "tr' = tr @ [EmbedDocuments the_embeddings (map pageContent docs)]
         \<and> snd (asRetriever c store q tr2) = tr2 @ [EmbedQuery the_embeddings q]
         \<and> taskType the_embeddings = RETRIEVAL_DOCUMENT"
  using assms
  by (auto simp: initializeVectorStore_def addDocuments_def asRetriever_def io_defs
      the_embeddings_def Let_def split: sum.splits)

theorem query_embedded_in_document_mode_witness:
  "initializeVectorStore stub [sky] [] =
     (Inr \<lparr>embeddings = the_embeddings, memoryVectors = [(16, sky)]\<rparr>,
      [EmbedDocuments the_embeddings [''The sky is blue.'']])
   \<and> snd (asRetriever stub \<lparr>embeddings = the_embeddings, memoryVectors = [(16, sky)]\<rparr>
             ''What color is the sky?'' []) =
       [EmbedQuery the_embeddings ''What color is the sky?'']
   \<and> taskType the_embeddings = RETRIEVAL_DOCUMENT"
proof -
  have 1: "initializeVectorStore stub [sky] [] =
     (Inr \<lparr>embeddings = the_embeddings, memoryVectors = [(16, sky)]\<rparr>,
      [EmbedDocuments the_embeddings [''The sky is blue.'']])"
    by (simp add: initializeVectorStore_def addDocuments_def io_defs stub_def sky_def
        the_embeddings_def Let_def)
  from query_embedded_in_document_mode [OF 1, of "''What color is the sky?''" "[]"] 1
  show ?thesis by simp
qed


section \<open>Configuration (C6)\<close>

text \<open>
  What a run does can depend on its environment through the collaborators: without an
  API key the first embedding call is rejected and the request fails, with the same
  constants in the calls it made.
\<close>

lemma environment_reaches_collaborators:
  "program Map.empty keyed_stub [request ''What color is the sky?'' ''s1''] =
     (JNum 8087,
      [(Inl (CollaboratorError ''GOOGLE_API_KEY''),
        new_response\<lparr>headers := [(''Content-Type'', ''text/plain; charset=utf-8''),
                                 (''Transfer-Encoding'', ''chunked'')]\<rparr>)],
      [LoadDocument (docPath final_chain_props), SplitDocuments 1536 128,
       EmbedDocuments the_embeddings [''The sky is blue.'']])"
  by (simp add: program_def port_def js_or_def env_get_def keyed_stub_def generate_route_def
      get_prop_def js_not_def res_setHeader_def new_response_def
      pipeline_defs io_defs stub_defs final_chain_props_sizes Let_def)

text \<open>
  Against C6 as claimed (document path, chunk size and overlap, model names and
  temperature are drawn from the environment): under an environment that names other
  values for all of them, a request uses the constants of the helpers module; only the
  port follows the environment.
\<close>

theorem environment_ignored_counterexample:
  "sample_env ''CHUNK_SIZE'' = Some ''512'' \<and> sample_env ''CHUNK_OVERLAP'' = Some ''64''
   \<and> sample_env ''DOC_PATH'' = Some ''/data/other.pdf''
   \<and> sample_env ''MODEL_NAME'' = Some ''gemini-2.0-flash''
   \<and> sample_env ''TEMPERATURE'' = Some ''0.7''
   \<and> program sample_env keyed_stub [request ''What color is the sky?'' ''s1''] =
      (JStr ''3000'', [(Inr (), ok_response [''It is '', ''green.''])],
       [LoadDocument (docPath final_chain_props), SplitDocuments 1536 128,
        EmbedDocuments \<lparr>embedding_model = ''text-embedding-004'', taskType = RETRIEVAL_DOCUMENT\<rparr>
          [''The sky is blue.''],
        ChatCall \<lparr>model = ''gemini-1.5-pro'', temperature = Some (1 / 10)\<rparr>
          (RephrasePrompt [] ''What color is the sky?''),
        EmbedQuery \<lparr>embedding_model = ''text-embedding-004'', taskType = RETRIEVAL_DOCUMENT\<rparr>
          ''What color is the sky?'',
        ChatCall \<lparr>model = ''gemini-1.5-pro'', temperature = None\<rparr>
          (AnswerPrompt (wrapped sky) [] ''What color is the grass?'')])
   \<and> docPath final_chain_props \<noteq> ''/data/other.pdf''"
  by (simp add: program_def port_def js_or_def env_get_def sample_env_def keyed_stub_def route_stub
      rephrase_llm_def answer_llm_def the_embeddings_def final_chain_props_def backslash_def)

text \<open>
  C6, amended. Of the configuration values only the listening port is drawn from the
  environment (\<open>API_PORT\<close>, 8087 when it is unset or empty). Under every environment,
  and whatever collaborators it gives the run, every document-loading, chunking,
  embedding and chat-model call carries the constants written in the helpers module:
  the fixed document path, chunk size 1536 and overlap 128, the embedding model
  \<open>text-embedding-004\<close>, and the chat model \<open>gemini-1.5-pro\<close> with temperature 0.1 for
  rewriting and none for answering.
\<close>

theorem only_port_from_environment:
  "fst (program env services requests) =
     (case env ''API_PORT'' of None \<Rightarrow> JNum 8087 | Some s \<Rightarrow> if s = [] then JNum 8087 else JStr s)
   \<and> list_all fixed_configuration (snd (snd (program env services requests)))"
proof -
  from serve_emits [of fixed_configuration "services env" requests "[]",
      OF handler_emits_fixed_configuration]
  have "list_all fixed_configuration (snd (serve (services env) requests []))" by auto
  then show ?thesis
    by (simp add: program_def port_def js_or_def env_get_def split: option.split)
qed


section \<open>The context block (C7)\<close>

text \<open>
  C7. For every list of retrieved chunks, \<open>convertDocsToString\<close> wraps each chunk's
  content on its own in the \<open>doc\<close> tag and joins the wrapped chunks with newlines in the
  order it was given them; for no chunk it produces the empty string.
\<close>

theorem context_block_serialization:
  "convertDocsToString [] = [] \<and> convertDocsToString docs = context_block_spec docs"
  by (simp add: convertDocsToString_spec)


section \<open>What the libraries decide (C8, C9)\<close>

text \<open>
  The repository neither validates the chunking parameters nor ranks the search
  results. \<open>loadAndSplitChunks\<close> hands \<open>chunkSize\<close> and \<open>chunkOverlap\<close> to the text
  splitter and returns what the splitter returns, its error included; the retriever
  returns what the store's similarity search returns for the embedded query. The error
  for an overlap that is not below the chunk size, the bound on a chunk's length, and the
  number, order and default \<open>k\<close> of the search results are properties of these two
  library functions, which are parameters here.
\<close>

lemma loadAndSplitChunks_forwards:
  assumes "pdf_load c (docPath props) = Inr raw"
  shows "loadAndSplitChunks c props tr =
           (split_documents c (chunkSize props) (chunkOverlap props) raw,
            tr @ [LoadDocument (docPath props), SplitDocuments (chunkSize props) (chunkOverlap props)])"
  using assms by (simp add: loadAndSplitChunks_def io_defs)

lemma asRetriever_forwards:
  assumes "embed_query c (embeddings store) q = Inr v"
  shows "fst (asRetriever c store q tr) = Inr (similarity_search c (memoryVectors store) v)"
  using assms by (simp add: asRetriever_def io_defs)


section \<open>The listening port (C10)\<close>

text \<open>
  Against C10 as claimed (8087 when \<open>API_PORT\<close> is unset, otherwise the port given by
  \<open>API_PORT\<close>): a variable that is set to the empty string is set, and the port is 8087.
\<close>

theorem empty_port_counterexample:
  "env_get [''API_PORT'' \<mapsto> ''''] ''API_PORT'' = JStr '''' \<and> port [''API_PORT'' \<mapsto> ''''] = JNum 8087"
  by (simp add: port_def js_or_def env_get_def)

text \<open>
  C10, amended. When \<open>API_PORT\<close> is unset or empty the server listens on port 8087;
  otherwise it listens on the port given by \<open>API_PORT\<close>.
\<close>

theorem port_default:
  "(env ''API_PORT'' = None \<or> env ''API_PORT'' = Some [] \<longrightarrow> port env = JNum 8087)
   \<and> (env ''API_PORT'' = Some s \<and> s \<noteq> [] \<longrightarrow> port env = JStr s)"
  by (auto simp: port_def js_or_def env_get_def)

theorem port_default_witness:
  "port Map.empty = JNum 8087 \<and> port [''API_PORT'' \<mapsto> ''3000''] = JStr ''3000''"
  using port_default [of Map.empty] port_default [of "[''API_PORT'' \<mapsto> ''3000'']" "''3000''"]
  by simp

end
